theory Spec2Isabelle
  imports Main
begin

section \<open>Values, objects and effects of \<open>models/responder.py\<close>\<close>

text \<open>
  \<open>generate_response\<close> talks to the file system, to the model loader and to six
  inference backends. The embedding makes each of these explicit:
  \<^item> an exception (an instance of Python's \<open>Exception\<close>, which is what the two kinds of
    handler of the function catch) is a value \<open>Exception msg\<close>, where \<open>msg\<close> is \<open>str(e)\<close>;
  \<^item> the value a Python expression yields where the source does not fix its type is a
    \<open>pyval\<close>: a string or \<open>None\<close>;
  \<^item> the objects of a backend handle live in a heap of object states, addressed by
    reference, since the loader hands out the same cached objects at every call;
  \<^item> every call that leaves the function (logger, loader, file system, preprocessor,
    inference) appends an event to a trace.
\<close>

type_synonym path = string
type_synonym image = nat
type_synonym ref = nat
type_synonym tokens = "nat list"

datatype exn = Exception string

fun str :: "exn \<Rightarrow> string" where
  "str (Exception msg) = msg"

datatype pyval = PyNone | PyStr string

text \<open>Python truthiness of such a value: \<open>None\<close> and the empty string are false.\<close>

fun truthy :: "pyval \<Rightarrow> bool" where
  "truthy PyNone = False"
| "truthy (PyStr s) = (s \<noteq> [])"

text \<open>
  The state of a handle object. \<open>dtype\<close> is the floating-point type of a module's
  parameters; \<open>ident\<close> stands for everything else about the object.
\<close>

datatype dtype = Float32 | Float16

record obj =
  dtype :: dtype
  ident :: nat

text \<open>
  \<open>torch.nn.Module.half()\<close> casts the parameters of the module it is called on to half
  precision in place and returns that same module.
\<close>

definition half :: "obj \<Rightarrow> obj" where
  "half m = m\<lparr>dtype := Float16\<rparr>"

text \<open>The parts of a prompt, as the dictionaries and objects the branches build.\<close>

datatype part =
    Text string
  | ImageFile path int int
  | ImageObj image
  | ImageUrl string
  | ImageSlot

record inputs =
  input_ids :: "tokens list"
  payload :: nat

datatype level = Info | Warning | Error

datatype event =
    Log level string
  | LoadModel string
  | Exists path
  | OpenImage path
  | Opened image
  | ReadFile path
  | CloseImage image
  | Prompt string "part list"
  | Pixels string "image list"
  | Infer string

text \<open>
  \<open>Log\<close>: a call of the logger. \<open>LoadModel key\<close>: \<open>load_model(key)\<close> is called.
  \<open>Exists p\<close>: \<open>os.path.exists(p)\<close> is called. \<open>OpenImage p\<close>: \<open>Image.open(p)\<close> is called.
  \<open>Opened img\<close>: \<open>Image.open\<close> has returned the image \<open>img\<close>, which holds the open file.
  \<open>ReadFile p\<close>: the file \<open>p\<close> is opened for binary reading.
  \<open>CloseImage img\<close>: \<open>img.close()\<close> is called. \<open>Prompt b content\<close>: the branch \<open>b\<close> hands
  the structured content to the preprocessor or client of its backend. \<open>Pixels b imgs\<close>: it
  hands these images to the preprocessor. \<open>Infer b\<close>: the inference call of backend \<open>b\<close>
  (\<open>generate\<close>, \<open>generate_content\<close>, \<open>chat.completions.create\<close>, \<open>chat\<close>,
  \<open>generate_from_batch\<close>) is entered. The logger and \<open>close\<close> are taken not to raise.
\<close>

record state =
  heap :: "ref \<Rightarrow> obj"
  trace :: "event list"

type_synonym 'a run = "state \<Rightarrow> (exn + 'a) \<times> state"

definition ret :: "'a \<Rightarrow> 'a run" where
  "ret x = (\<lambda>s. (Inr x, s))"

definition raise :: "exn \<Rightarrow> 'a run" where
  "raise e = (\<lambda>s. (Inl e, s))"

definition lift :: "exn + 'a \<Rightarrow> 'a run" where
  "lift r = (\<lambda>s. (r, s))"

definition bind_run :: "'a run \<Rightarrow> ('a \<Rightarrow> 'b run) \<Rightarrow> 'b run" where
  "bind_run m f = (\<lambda>s. case m s of (Inl e, s') \<Rightarrow> (Inl e, s') | (Inr x, s') \<Rightarrow> f x s')"

definition emit :: "event \<Rightarrow> unit run" where
  "emit ev = (\<lambda>s. (Inr (), s\<lparr>trace := trace s @ [ev]\<rparr>))"

text \<open>\<open>try: m except Exception as e: h e\<close>\<close>

definition try_except :: "'a run \<Rightarrow> (exn \<Rightarrow> 'a run) \<Rightarrow> 'a run" where
  "try_except m h = (\<lambda>s. case m s of (Inl e, s') \<Rightarrow> h e s' | (Inr x, s') \<Rightarrow> (Inr x, s'))"

text \<open>
  \<open>try: m finally: c\<close>: the clean-up runs whatever \<open>m\<close> did, and the outcome of \<open>m\<close>
  (a returned value or an exception) stands unless the clean-up itself raises.
\<close>

definition try_finally :: "'a run \<Rightarrow> unit run \<Rightarrow> 'a run" where
  "try_finally m c = (\<lambda>s. case m s of (r, s') \<Rightarrow>
     (case c s' of (Inl e, s'') \<Rightarrow> (Inl e, s'') | (Inr u, s'') \<Rightarrow> (r, s'')))"

text \<open>Reading the state of the object behind a reference, and writing it.\<close>

definition deref :: "ref \<Rightarrow> obj run" where
  "deref r = (\<lambda>s. (Inr (heap s r), s))"

definition assign :: "ref \<Rightarrow> obj \<Rightarrow> unit run" where
  "assign r v = (\<lambda>s. (Inr (), s\<lparr>heap := (heap s)(r := v)\<rparr>))"

text \<open>A \<open>for\<close> loop over a list whose body may raise.\<close>

fun for_each :: "'a list \<Rightarrow> ('a \<Rightarrow> unit run) \<Rightarrow> unit run" where
  "for_each [] body = ret ()"
| "for_each (x # xs) body = bind_run (body x) (\<lambda>u. for_each xs body)"

text \<open>
  A \<open>for\<close> loop that appends to a list: the body gets the list so far and returns the
  list after its iteration.
\<close>

fun for_acc :: "'a list \<Rightarrow> 'b \<Rightarrow> ('a \<Rightarrow> 'b \<Rightarrow> 'b run) \<Rightarrow> 'b run" where
  "for_acc [] acc body = ret acc"
| "for_acc (x # xs) acc body = bind_run (body x acc) (\<lambda>acc'. for_acc xs acc' body)"

text \<open>\<open>xs[0]\<close> raises \<open>IndexError\<close> on an empty list.\<close>

definition index0 :: "'a list \<Rightarrow> 'a run" where
  "index0 xs = (case xs of [] \<Rightarrow> raise (Exception ''list index out of range'') | x # rest \<Rightarrow> ret x)"

text \<open>
  Indexing a tensor with \<open>t[0]\<close> or \<open>t[0, n:]\<close> raises \<open>IndexError\<close> when the tensor has no
  row, with the text of torch.
\<close>

definition row0 :: "tokens list \<Rightarrow> tokens run" where
  "row0 t = (case t of
       [] \<Rightarrow> raise (Exception ''index 0 is out of bounds for dimension 0 with size 0'')
     | row # rest \<Rightarrow> ret row)"

text \<open>
  Unpacking the tuple returned by \<open>load_model\<close> into two or three names raises
  \<open>ValueError\<close> when the tuple has another length.
\<close>

definition unpack2 :: "ref list \<Rightarrow> (ref \<times> ref) run" where
  "unpack2 t = (case t of
       [] \<Rightarrow> raise (Exception ''not enough values to unpack (expected 2, got 0)'')
     | [a] \<Rightarrow> raise (Exception ''not enough values to unpack (expected 2, got 1)'')
     | [a, b] \<Rightarrow> ret (a, b)
     | _ \<Rightarrow> raise (Exception ''too many values to unpack (expected 2)''))"

definition unpack3 :: "ref list \<Rightarrow> (ref \<times> ref \<times> ref) run" where
  "unpack3 t = (case t of
       [] \<Rightarrow> raise (Exception ''not enough values to unpack (expected 3, got 0)'')
     | [a] \<Rightarrow> raise (Exception ''not enough values to unpack (expected 3, got 1)'')
     | [a, b] \<Rightarrow> raise (Exception ''not enough values to unpack (expected 3, got 2)'')
     | [a, b, c] \<Rightarrow> ret (a, b, c)
     | _ \<Rightarrow> raise (Exception ''too many values to unpack (expected 3)''))"

section \<open>The collaborators\<close>

text \<open>
  Everything \<open>generate_response\<close> calls and does not define: the model loader, the file
  system, PIL, the preprocessors and models of the local backends, and the two remote
  clients. Each is a function of its arguments that returns a value or raises. The
  inference objects are given the current state of the object they are called on; none of
  them is taken to change a handle object, so the only write to the heap is the one the
  source asks for with \<open>model.half()\<close>.
\<close>

record world =
  load_model :: "string \<Rightarrow> exn + ref list"
  path_exists :: "path \<Rightarrow> bool"
  image_open :: "path \<Rightarrow> exn + image"
  image_convert :: "image \<Rightarrow> exn + image"
  read_b64 :: "path \<Rightarrow> exn + string"
  apply_chat_template :: "obj \<Rightarrow> part list \<Rightarrow> exn + string"
  process_vision_info :: "part list \<Rightarrow> exn + nat \<times> nat"
  qwen_processor :: "obj \<Rightarrow> string list \<Rightarrow> nat \<Rightarrow> nat \<Rightarrow> exn + inputs"
  llama_processor :: "obj \<Rightarrow> image \<Rightarrow> string \<Rightarrow> exn + inputs"
  to_device :: "inputs \<Rightarrow> obj \<Rightarrow> exn + inputs"
  model_generate :: "obj \<Rightarrow> inputs \<Rightarrow> nat \<Rightarrow> exn + tokens list"
  batch_decode :: "obj \<Rightarrow> tokens list \<Rightarrow> exn + string list"
  decode :: "obj \<Rightarrow> tokens \<Rightarrow> exn + string"
  generate_content :: "obj \<Rightarrow> part list \<Rightarrow> exn + (exn + pyval)"
  getenv :: "string \<Rightarrow> string option"
  openai_client :: "string option \<Rightarrow> exn + obj"
  chat_completions_create :: "obj \<Rightarrow> string \<Rightarrow> part list \<Rightarrow> nat \<Rightarrow> exn + pyval list"
  model_chat :: "obj \<Rightarrow> part list \<Rightarrow> obj \<Rightarrow> exn + string list list"
  processor_process :: "obj \<Rightarrow> image list \<Rightarrow> string \<Rightarrow> exn + inputs"
  generate_from_batch :: "obj \<Rightarrow> inputs \<Rightarrow> nat \<Rightarrow> string \<Rightarrow> exn + tokens list"

text \<open>
  Two results stand for the object the source reads them from: \<open>generate_content\<close> gives
  what reading \<open>response.text\<close> does (the property returns a value or raises), and
  \<open>chat_completions_create\<close> gives \<open>message.content\<close> of each element of
  \<open>response.choices\<close>; \<open>model_chat\<close> gives the \<open>text\<close> of each completion of each
  request output.
\<close>

section \<open>Helpers of the standard library\<close>

text \<open>\<open>os.path.join('static', p)\<close> on a POSIX system: an absolute \<open>p\<close> replaces the root.\<close>

definition static_join :: "path \<Rightarrow> path" where
  "static_join p = (if take 1 p = ''/'' then p else ''static/'' @ p)"

text \<open>
  \<open>os.path.splitext(p)[1]\<close>: the extension starts at the last dot of the last path
  component, unless only dots come before it in that component.
\<close>

definition basename :: "path \<Rightarrow> string" where
  "basename p = rev (takeWhile (\<lambda>c. c \<noteq> CHR ''/'') (rev p))"

definition splitext_ext :: "path \<Rightarrow> string" where
  "splitext_ext p =
     (let b = basename p;
          after = takeWhile (\<lambda>c. c \<noteq> CHR ''.'') (rev b);
          stem = rev (drop (length after + 1) (rev b))
      in if CHR ''.'' \<in> set b \<and> filter (\<lambda>c. c \<noteq> CHR ''.'') stem \<noteq> []
         then CHR ''.'' # rev after else [])"

definition logger :: "level \<Rightarrow> string \<Rightarrow> unit run" where
  "logger lvl msg = emit (Log lvl msg)"

section \<open>\<open>encode_image\<close>\<close>

text \<open>Opens the file for binary reading and returns the base64 text of its bytes.\<close>

definition encode_image :: "world \<Rightarrow> path \<Rightarrow> string run" where
  "encode_image w image_path =
     bind_run (emit (ReadFile image_path)) (\<lambda>u. lift (read_b64 w image_path))"

section \<open>The branches of \<open>generate_response\<close>\<close>

definition no_images :: string where
  "no_images = ''No images could be loaded for analysis.''"

definition processing_error :: "exn \<Rightarrow> string" where
  "processing_error e = ''An error occurred while processing the images: '' @ str e"

text \<open>\<open>model, processor, device = load_model(key)\<close>\<close>

definition load3 :: "world \<Rightarrow> string \<Rightarrow> (ref \<times> ref \<times> ref) run" where
  "load3 w key =
     bind_run (emit (LoadModel key)) (\<lambda>u.
     bind_run (lift (load_model w key)) unpack3)"

definition load2 :: "world \<Rightarrow> string \<Rightarrow> (ref \<times> ref) run" where
  "load2 w key =
     bind_run (emit (LoadModel key)) (\<lambda>u.
     bind_run (lift (load_model w key)) unpack2)"

text \<open>
  \<open>Image.open(path).convert('RGB')\<close>: \<open>Image.open\<close> returns the image that holds the open
  file, \<open>convert\<close> returns the image the source binds.
\<close>

definition open_rgb :: "world \<Rightarrow> path \<Rightarrow> image run" where
  "open_rgb w p =
     bind_run (emit (OpenImage p)) (\<lambda>u.
     bind_run (lift (image_open w p)) (\<lambda>raw.
     bind_run (emit (Opened raw)) (\<lambda>u.
     lift (image_convert w raw))))"

subsection \<open>qwen\<close>

definition qwen_content :: "string list \<Rightarrow> string \<Rightarrow> int \<Rightarrow> int \<Rightarrow> part list" where
  "qwen_content images query resized_height resized_width =
     (let rh = (resized_height div 28) * 28;
          rw = (resized_width div 28) * 28;
          image_contents = map (\<lambda>image. ImageFile (static_join image) rh rw) images
      in image_contents @ [Text query])"

definition qwen_branch :: "world \<Rightarrow> string list \<Rightarrow> string \<Rightarrow> int \<Rightarrow> int \<Rightarrow> pyval run" where
  "qwen_branch w images query resized_height resized_width =
     bind_run (load3 w ''qwen'') (\<lambda>(model, processor, device).
     let content = qwen_content images query resized_height resized_width in
     bind_run (emit (Prompt ''qwen'' content)) (\<lambda>u.
     bind_run (deref processor) (\<lambda>p.
     bind_run (lift (apply_chat_template w p content)) (\<lambda>text.
     bind_run (lift (process_vision_info w content)) (\<lambda>(image_inputs, video_inputs).
     bind_run (lift (qwen_processor w p [text] image_inputs video_inputs)) (\<lambda>inputs0.
     bind_run (deref device) (\<lambda>d.
     bind_run (lift (to_device w inputs0 d)) (\<lambda>inputs.
     bind_run (emit (Infer ''qwen'')) (\<lambda>u.
     bind_run (deref model) (\<lambda>m.
     bind_run (lift (model_generate w m inputs 128)) (\<lambda>generated_ids.
     let generated_ids_trimmed =
           map (\<lambda>(in_ids, out_ids). drop (length in_ids) out_ids)
             (zip (input_ids inputs) generated_ids) in
     bind_run (lift (batch_decode w p generated_ids_trimmed)) (\<lambda>output_text.
     bind_run (logger Info ''Response generated using Qwen model.'') (\<lambda>u.
     bind_run (index0 output_text) (\<lambda>out. ret (PyStr out)))))))))))))))"

subsection \<open>gemini\<close>

definition gemini_load_image :: "world \<Rightarrow> string \<Rightarrow> part list \<Rightarrow> part list run" where
  "gemini_load_image w img_path content =
     (let full_path = static_join img_path in
      bind_run (emit (Exists full_path)) (\<lambda>u.
      if path_exists w full_path then
        try_except
          (bind_run (emit (OpenImage full_path)) (\<lambda>u.
           bind_run (lift (image_open w full_path)) (\<lambda>img.
           bind_run (emit (Opened img)) (\<lambda>u. ret (content @ [ImageObj img])))))
          (\<lambda>e. bind_run
             (logger Error (''Error opening image '' @ full_path @ '': '' @ str e))
             (\<lambda>u. ret content))
      else bind_run (logger Warning (''Image file not found: '' @ full_path))
             (\<lambda>u. ret content)))"

definition gemini_branch :: "world \<Rightarrow> string list \<Rightarrow> string \<Rightarrow> pyval run" where
  "gemini_branch w images query =
     bind_run (load2 w ''gemini'') (\<lambda>(model, other).
     try_except
       (bind_run (for_acc images [Text query] (gemini_load_image w)) (\<lambda>content.
        if length content = 1 then ret (PyStr no_images)
        else
          bind_run (emit (Prompt ''gemini'' content)) (\<lambda>u.
          bind_run (emit (Infer ''gemini'')) (\<lambda>u.
          bind_run (deref model) (\<lambda>m.
          bind_run (lift (generate_content w m content)) (\<lambda>response.
          bind_run (lift response) (\<lambda>text.
          if truthy text then
            bind_run (logger Info ''Response generated using Gemini model.'')
              (\<lambda>u. ret text)
          else ret (PyStr ''The Gemini model did not generate any text response.''))))))))
       (\<lambda>e. bind_run (logger Error (''Error in Gemini processing: '' @ str e))
          (\<lambda>u. ret (PyStr (processing_error e)))))"

subsection \<open>gpt4\<close>

definition gpt4_load_image :: "world \<Rightarrow> string \<Rightarrow> part list \<Rightarrow> part list run" where
  "gpt4_load_image w img_path content =
     (let full_path = static_join img_path in
      bind_run (emit (Exists full_path)) (\<lambda>u.
      if path_exists w full_path then
        bind_run (encode_image w full_path) (\<lambda>base64_image.
        ret (content @ [ImageUrl (''data:image/jpeg;base64,'' @ base64_image)]))
      else bind_run (logger Warning (''Image file not found: '' @ full_path))
             (\<lambda>u. ret content)))"

definition gpt4_branch :: "world \<Rightarrow> string list \<Rightarrow> string \<Rightarrow> pyval run" where
  "gpt4_branch w images query =
     (let api_key = getenv w ''OPENAI_API_KEY'' in
      bind_run (lift (openai_client w api_key)) (\<lambda>client.
      try_except
        (bind_run (for_acc images [Text query] (gpt4_load_image w)) (\<lambda>content.
         if length content = 1 then ret (PyStr no_images)
         else
           bind_run (emit (Prompt ''gpt4'' content)) (\<lambda>u.
           bind_run (emit (Infer ''gpt4'')) (\<lambda>u.
           bind_run (lift (chat_completions_create w client ''gpt-4o'' content 1024))
             (\<lambda>choices.
           bind_run (index0 choices) (\<lambda>generated_text.
           bind_run (logger Info ''Response generated using GPT-4 model.'')
             (\<lambda>u. ret generated_text)))))))
        (\<lambda>e. bind_run (logger Error (''Error in GPT-4 processing: '' @ str e))
           (\<lambda>u. ret (PyStr (processing_error e))))))"

subsection \<open>llama-vision\<close>

definition llama_branch :: "world \<Rightarrow> string list \<Rightarrow> string \<Rightarrow> pyval run" where
  "llama_branch w images query =
     bind_run (load3 w ''llama-vision'') (\<lambda>(model, processor, device).
     let image_paths = map static_join images in
     bind_run (index0 image_paths) (\<lambda>image_path.
     bind_run (open_rgb w image_path) (\<lambda>image.
     let content = [ImageSlot, Text query] in
     bind_run (emit (Prompt ''llama-vision'' content)) (\<lambda>u.
     bind_run (deref processor) (\<lambda>p.
     bind_run (lift (apply_chat_template w p content)) (\<lambda>input_text.
     bind_run (emit (Pixels ''llama-vision'' [image])) (\<lambda>u.
     bind_run (lift (llama_processor w p image input_text)) (\<lambda>inputs0.
     bind_run (deref device) (\<lambda>d.
     bind_run (lift (to_device w inputs0 d)) (\<lambda>inputs.
     bind_run (emit (Infer ''llama-vision'')) (\<lambda>u.
     bind_run (deref model) (\<lambda>m.
     bind_run (lift (model_generate w m inputs 512)) (\<lambda>output.
     bind_run (row0 output) (\<lambda>output0.
     bind_run (lift (decode w p output0)) (\<lambda>response.
     ret (PyStr response))))))))))))))))"

subsection \<open>pixtral\<close>

definition image_to_data_url :: "world \<Rightarrow> string \<Rightarrow> string run" where
  "image_to_data_url w image_path0 =
     (let image_path = static_join image_path0 in
      bind_run (emit (ReadFile image_path)) (\<lambda>u.
      bind_run (lift (read_b64 w image_path)) (\<lambda>encoded_string.
      let ext = drop 1 (splitext_ext image_path) in
      ret (''data:image/'' @ ext @ '';base64,'' @ encoded_string))))"

definition pixtral_branch :: "world \<Rightarrow> string list \<Rightarrow> string \<Rightarrow> pyval run" where
  "pixtral_branch w images query =
     bind_run (load3 w ''pixtral'') (\<lambda>(model, sampling_params, device).
     bind_run (for_acc (take 1 images) []
        (\<lambda>img_path acc. bind_run (image_to_data_url w img_path)
           (\<lambda>url. ret (acc @ [ImageUrl url])))) (\<lambda>image_parts.
     let content = Text query # image_parts in
     bind_run (emit (Prompt ''pixtral'' content)) (\<lambda>u.
     bind_run (emit (Infer ''pixtral'')) (\<lambda>u.
     bind_run (deref model) (\<lambda>m.
     bind_run (deref sampling_params) (\<lambda>sp.
     bind_run (lift (model_chat w m content sp)) (\<lambda>outputs.
     bind_run (index0 outputs) (\<lambda>outputs0.
     bind_run (index0 outputs0) (\<lambda>text. ret (PyStr text))))))))))"

subsection \<open>molmo\<close>

definition molmo_load_image :: "world \<Rightarrow> string \<Rightarrow> image list \<Rightarrow> image list run" where
  "molmo_load_image w img_path pil_images =
     (let full_path = static_join img_path in
      bind_run (emit (Exists full_path)) (\<lambda>u.
      if path_exists w full_path then
        try_except
          (bind_run (open_rgb w full_path) (\<lambda>img. ret (pil_images @ [img])))
          (\<lambda>e. bind_run
             (logger Error (''Error opening image '' @ full_path @ '': '' @ str e))
             (\<lambda>u. ret pil_images))
      else bind_run (logger Warning (''Image file not found: '' @ full_path))
             (\<lambda>u. ret pil_images)))"

text \<open>
  \<open>output[0, inputs['input_ids'].size(1):]\<close>: the first row of the output, without as
  many leading tokens as a row of the batched input has.
\<close>

definition size1 :: "tokens list \<Rightarrow> nat" where
  "size1 t = (case t of [] \<Rightarrow> 0 | row # rest \<Rightarrow> length row)"

definition molmo_generate :: "world \<Rightarrow> ref \<Rightarrow> ref \<Rightarrow> ref \<Rightarrow> image list \<Rightarrow> string \<Rightarrow> pyval run" where
  "molmo_generate w model processor device pil_images query =
     bind_run (emit (Pixels ''molmo'' pil_images)) (\<lambda>u.
     bind_run (deref processor) (\<lambda>p.
     bind_run (lift (processor_process w p pil_images query)) (\<lambda>inputs0.
     bind_run (deref device) (\<lambda>d.
     bind_run (lift (to_device w inputs0 d)) (\<lambda>inputs.
     bind_run (emit (Infer ''molmo'')) (\<lambda>u.
     bind_run (deref model) (\<lambda>m.
     bind_run (lift (generate_from_batch w m inputs 200 ''<|endoftext|>'')) (\<lambda>output.
     bind_run (row0 output) (\<lambda>output0.
     let generated_tokens = drop (size1 (input_ids inputs)) output0 in
     bind_run (lift (decode w p generated_tokens)) (\<lambda>generated_text.
     ret (PyStr generated_text)))))))))))"

definition molmo_branch :: "world \<Rightarrow> string list \<Rightarrow> string \<Rightarrow> pyval run" where
  "molmo_branch w images query =
     bind_run (load3 w ''molmo'') (\<lambda>(model, processor, device).
     bind_run (deref model) (\<lambda>m.
     bind_run (assign model (half m)) (\<lambda>u.
     bind_run (for_acc (take 1 images) [] (molmo_load_image w)) (\<lambda>pil_images.
     if pil_images = [] then ret (PyStr no_images)
     else
       try_finally
         (try_except
            (molmo_generate w model processor device pil_images query)
            (\<lambda>e. bind_run (logger Error (''Error in Molmo processing: '' @ str e))
               (\<lambda>u. ret (PyStr (processing_error e)))))
         (for_each pil_images (\<lambda>img. emit (CloseImage img)))))))"

section \<open>\<open>generate_response\<close>\<close>

definition invalid_model :: string where
  "invalid_model = ''Invalid model selected.''"

definition generic_error :: string where
  "generic_error = ''An error occurred while generating the response.''"

definition dispatch :: "world \<Rightarrow> string list \<Rightarrow> string \<Rightarrow> int \<Rightarrow> int \<Rightarrow> string \<Rightarrow> pyval run" where
  "dispatch w images query resized_height resized_width model_choice =
     (if model_choice = ''qwen'' then qwen_branch w images query resized_height resized_width
      else if model_choice = ''gemini'' then gemini_branch w images query
      else if model_choice = ''gpt4'' then gpt4_branch w images query
      else if model_choice = ''llama-vision'' then llama_branch w images query
      else if model_choice = ''pixtral'' then pixtral_branch w images query
      else if model_choice = ''molmo'' then molmo_branch w images query
      else bind_run (logger Error (''Invalid model choice: '' @ model_choice))
             (\<lambda>u. ret (PyStr invalid_model)))"

definition generate_response ::
  "world \<Rightarrow> string list \<Rightarrow> string \<Rightarrow> 'sid \<Rightarrow> int \<Rightarrow> int \<Rightarrow> string \<Rightarrow> pyval run" where
  "generate_response w images query session_id resized_height resized_width model_choice =
     try_except
       (bind_run
          (logger Info (''Generating response using model '' @ [CHR 0x27] @ model_choice
             @ [CHR 0x27] @ ''.''))
          (\<lambda>u. dispatch w images query resized_height resized_width model_choice))
       (\<lambda>e. bind_run (logger Error (''Error generating response: '' @ str e))
          (\<lambda>u. ret (PyStr generic_error)))"

text \<open>
  A call starts with an empty trace on the heap \<open>h\<close> of handle objects. \<open>returned\<close> is
  what the caller gets (\<open>Inl\<close>: an exception propagates), \<open>events\<close> what the call did,
  \<open>heap_after\<close> the handle objects when it ends.
\<close>

definition start :: "(ref \<Rightarrow> obj) \<Rightarrow> state" where
  "start h = \<lparr>heap = h, trace = []\<rparr>"

definition returned :: "'a run \<Rightarrow> (ref \<Rightarrow> obj) \<Rightarrow> exn + 'a" where
  "returned m h = fst (m (start h))"

definition events :: "'a run \<Rightarrow> (ref \<Rightarrow> obj) \<Rightarrow> event list" where
  "events m h = trace (snd (m (start h)))"

definition heap_after :: "'a run \<Rightarrow> (ref \<Rightarrow> obj) \<Rightarrow> ref \<Rightarrow> obj" where
  "heap_after m h = heap (snd (m (start h)))"

section \<open>Predicates on runs and a sample world\<close>

text \<open>
  \<open>frame P m\<close>: the run \<open>m\<close> leaves the heap as it is and appends only events that satisfy
  \<open>P\<close>. \<open>yields Q m\<close>: a value \<open>m\<close> returns satisfies \<open>Q\<close>.
\<close>

definition frame :: "(event \<Rightarrow> bool) \<Rightarrow> 'a run \<Rightarrow> bool" where
  "frame P m = (\<forall>s. \<exists>T. snd (m s) = s\<lparr>trace := trace s @ T\<rparr> \<and> list_all P T)"

definition yields :: "('a \<Rightarrow> bool) \<Rightarrow> 'a run \<Rightarrow> bool" where
  "yields Q m = (\<forall>s x. fst (m s) = Inr x \<longrightarrow> Q x)"

definition not_pixels :: "event \<Rightarrow> bool" where
  "not_pixels e = (case e of Pixels b imgs \<Rightarrow> False | _ \<Rightarrow> True)"

definition not_infer :: "event \<Rightarrow> bool" where
  "not_infer e = (case e of Infer b \<Rightarrow> False | _ \<Rightarrow> True)"

definition greeting :: "string \<Rightarrow> event" where
  "greeting model_choice = Log Info (''Generating response using model '' @ [CHR 0x27]
             @ model_choice @ [CHR 0x27] @ ''.'')"

text \<open>
  A world in which every key has a cached handle, \<open>static/a.png\<close> is the one file that
  exists, and every backend answers \<open>a cat\<close>; and a heap of single-precision objects.
\<close>

definition demo_heap :: "ref \<Rightarrow> obj" where
  "demo_heap = (\<lambda>r. \<lparr>dtype = Float32, ident = r\<rparr>)"

definition demo_world :: world where
  "demo_world =
     \<lparr>load_model = (\<lambda>key. if key = ''gemini'' then Inr [0, 1] else Inr [0, 1, 2]),
      path_exists = (\<lambda>p. p = ''static/a.png''),
      image_open = (\<lambda>p. if p = ''static/a.png'' then Inr 7 else Inl (Exception ''cannot open'')),
      image_convert = (\<lambda>img. Inr (Suc img)),
      read_b64 = (\<lambda>p. if p = ''static/a.png'' then Inr ''aGk='' else Inl (Exception ''cannot read'')),
      apply_chat_template = (\<lambda>p content. Inr ''prompt''),
      process_vision_info = (\<lambda>content. Inr (0, 0)),
      qwen_processor = (\<lambda>p texts i v. Inr \<lparr>input_ids = [[1, 2]], payload = 0\<rparr>),
      llama_processor = (\<lambda>p img text. Inr \<lparr>input_ids = [[1, 2]], payload = 0\<rparr>),
      to_device = (\<lambda>i d. Inr i),
      model_generate = (\<lambda>m i n. Inr [[1, 2, 3]]),
      batch_decode = (\<lambda>p rows. Inr (map (\<lambda>row. ''a cat'') rows)),
      decode = (\<lambda>p row. Inr ''a cat''),
      generate_content = (\<lambda>m content. Inr (Inr (PyStr ''a cat''))),
      getenv = (\<lambda>name. Some ''key''),
      openai_client = (\<lambda>key. Inr \<lparr>dtype = Float32, ident = 9\<rparr>),
      chat_completions_create = (\<lambda>c name content n. Inr [PyStr ''a cat'']),
      model_chat = (\<lambda>m content sp. Inr [[''a cat'']]),
      processor_process = (\<lambda>p imgs text. Inr \<lparr>input_ids = [[1, 2]], payload = 0\<rparr>),
      generate_from_batch = (\<lambda>m i n stop. Inr [[1, 2, 3]])\<rparr>"

section \<open>Rules for \<open>frame\<close> and \<open>yields\<close>\<close>

lemma frameI: "(\<And>s. \<exists>T. snd (m s) = s\<lparr>trace := trace s @ T\<rparr> \<and> list_all P T) \<Longrightarrow> frame P m"
  by (simp add: frame_def)

lemma frameD: "frame P m \<Longrightarrow> \<exists>T. snd (m s) = s\<lparr>trace := trace s @ T\<rparr> \<and> list_all P T"
  by (simp add: frame_def)

lemma frame_ret: "frame P (ret x)"
  by (rule frameI) (rule exI [of _ "[]"], simp add: ret_def)

lemma frame_raise: "frame P (raise e)"
  by (rule frameI) (rule exI [of _ "[]"], simp add: raise_def)

lemma frame_lift: "frame P (lift r)"
  by (rule frameI) (rule exI [of _ "[]"], simp add: lift_def)

lemma frame_deref: "frame P (deref r)"
  by (rule frameI) (rule exI [of _ "[]"], simp add: deref_def)

lemma frame_emit: "P ev \<Longrightarrow> frame P (emit ev)"
  by (rule frameI) (rule exI [of _ "[ev]"], simp add: emit_def)

lemma frame_logger: "P (Log lvl msg) \<Longrightarrow> frame P (logger lvl msg)"
  by (simp add: logger_def frame_emit)

lemma frame_bind:
  assumes m: "frame P m" and f: "\<And>x. frame P (f x)"
  shows "frame P (bind_run m f)"
proof (rule frameI)
  fix s
  obtain r s' where ms: "m s = (r, s')" by (cases "m s")
  from frameD [OF m, of s] ms obtain T where T: "s' = s\<lparr>trace := trace s @ T\<rparr>" "list_all P T"
    by auto
  show "\<exists>T. snd (bind_run m f s) = s\<lparr>trace := trace s @ T\<rparr> \<and> list_all P T"
  proof (cases r)
    case (Inl e)
    with ms T show ?thesis by (auto simp: bind_run_def)
  next
    case (Inr x)
    from frameD [OF f, of x s'] obtain U where U: "snd (f x s') = s'\<lparr>trace := trace s' @ U\<rparr>" "list_all P U"
      by auto
    have "snd (bind_run m f s) = s\<lparr>trace := trace s @ (T @ U)\<rparr>"
      using ms Inr T U by (simp add: bind_run_def)
    moreover have "list_all P (T @ U)" using T U by simp
    ultimately show ?thesis by blast
  qed
qed

lemma frame_bind_res:
  assumes m: "frame P m" and f: "\<And>x s s'. m s = (Inr x, s') \<Longrightarrow> frame P (f x)"
  shows "frame P (bind_run m f)"
proof (rule frameI)
  fix s
  obtain r s' where ms: "m s = (r, s')" by (cases "m s")
  from frameD [OF m, of s] ms obtain T where T: "s' = s\<lparr>trace := trace s @ T\<rparr>" "list_all P T"
    by auto
  show "\<exists>T. snd (bind_run m f s) = s\<lparr>trace := trace s @ T\<rparr> \<and> list_all P T"
  proof (cases r)
    case (Inl e)
    with ms T show ?thesis by (auto simp: bind_run_def)
  next
    case (Inr x)
    with ms have "frame P (f x)" by (auto intro: f)
    from frameD [OF this, of s'] obtain U where U: "snd (f x s') = s'\<lparr>trace := trace s' @ U\<rparr>" "list_all P U"
      by auto
    have "snd (bind_run m f s) = s\<lparr>trace := trace s @ (T @ U)\<rparr>"
      using ms Inr T U by (simp add: bind_run_def)
    moreover have "list_all P (T @ U)" using T U by simp
    ultimately show ?thesis by blast
  qed
qed

lemma frame_try_except:
  assumes m: "frame P m" and f: "\<And>e. frame P (h e)"
  shows "frame P (try_except m h)"
proof (rule frameI)
  fix s
  obtain r s' where ms: "m s = (r, s')" by (cases "m s")
  from frameD [OF m, of s] ms obtain T where T: "s' = s\<lparr>trace := trace s @ T\<rparr>" "list_all P T"
    by auto
  show "\<exists>T. snd (try_except m h s) = s\<lparr>trace := trace s @ T\<rparr> \<and> list_all P T"
  proof (cases r)
    case (Inr x)
    with ms T show ?thesis by (auto simp: try_except_def)
  next
    case (Inl e)
    from frameD [OF f, of e s'] obtain U where U: "snd (h e s') = s'\<lparr>trace := trace s' @ U\<rparr>" "list_all P U"
      by auto
    have "snd (try_except m h s) = s\<lparr>trace := trace s @ (T @ U)\<rparr>"
      using ms Inl T U by (simp add: try_except_def)
    moreover have "list_all P (T @ U)" using T U by simp
    ultimately show ?thesis by blast
  qed
qed

lemma frame_try_finally:
  assumes m: "frame P m" and c: "frame P c"
  shows "frame P (try_finally m c)"
proof (rule frameI)
  fix s
  obtain r s' where ms: "m s = (r, s')" by (cases "m s")
  from frameD [OF m, of s] ms obtain T where T: "s' = s\<lparr>trace := trace s @ T\<rparr>" "list_all P T"
    by auto
  obtain r2 s2 where cs: "c s' = (r2, s2)" by (cases "c s'")
  from frameD [OF c, of s'] cs obtain U where U: "s2 = s'\<lparr>trace := trace s' @ U\<rparr>" "list_all P U"
    by auto
  have "snd (try_finally m c s) = s\<lparr>trace := trace s @ (T @ U)\<rparr>"
    using ms cs T U by (cases r2) (simp_all add: try_finally_def)
  moreover have "list_all P (T @ U)" using T U by simp
  ultimately show "\<exists>T. snd (try_finally m c s) = s\<lparr>trace := trace s @ T\<rparr> \<and> list_all P T"
    by blast
qed

lemma frame_for_acc:
  assumes "\<And>x acc. frame P (body x acc)"
  shows "frame P (for_acc xs acc body)"
  by (induction xs arbitrary: acc) (auto intro: frame_ret frame_bind assms)

lemma frame_for_each:
  assumes "\<And>x. frame P (body x)"
  shows "frame P (for_each xs body)"
  by (induction xs) (auto intro: frame_ret frame_bind assms)

lemma frame_index0: "frame P (index0 xs)"
  by (cases xs) (simp_all add: index0_def frame_ret frame_raise)

lemma frame_row0: "frame P (row0 t)"
  by (cases t) (simp_all add: row0_def frame_ret frame_raise)

lemma frame_unpack3: "frame P (unpack3 t)"
  by (simp add: unpack3_def frame_ret frame_raise split: list.split)

lemma frame_unpack2: "frame P (unpack2 t)"
  by (simp add: unpack2_def frame_ret frame_raise split: list.split)

lemma frame_if: "(c \<Longrightarrow> frame P a) \<Longrightarrow> (\<not> c \<Longrightarrow> frame P b) \<Longrightarrow> frame P (if c then a else b)"
  by simp

lemma frame_prod: "(\<And>a b. frame P (f a b)) \<Longrightarrow> frame P (case x of (a, b) \<Rightarrow> f a b)"
  by (cases x) simp

lemma frame_load3: "P (LoadModel key) \<Longrightarrow> frame P (load3 w key)"
  unfolding load3_def by (intro frame_bind frame_emit frame_lift frame_unpack3)

lemma frame_load2: "P (LoadModel key) \<Longrightarrow> frame P (load2 w key)"
  unfolding load2_def by (intro frame_bind frame_emit frame_lift frame_unpack2)

lemmas frame_intros = frame_bind frame_ret frame_raise frame_lift frame_deref frame_logger
  frame_try_except frame_try_finally frame_for_acc frame_for_each frame_index0 frame_row0
  frame_unpack3 frame_unpack2 frame_if frame_prod frame_load3 frame_load2 frame_emit

lemma frame_events: "frame P m \<Longrightarrow> list_all P (events m h)"
  using frameD [of P m "start h"] by (auto simp: events_def start_def)

lemma frame_heap: "frame P m \<Longrightarrow> heap_after m h = h"
  using frameD [of P m "start h"] by (auto simp: heap_after_def start_def)

lemma frame_open_rgb: "P (OpenImage p) \<Longrightarrow> (\<And>img. P (Opened img)) \<Longrightarrow> frame P (open_rgb w p)"
  unfolding open_rgb_def by (intro frame_intros)

lemma frame_generate_response:
  assumes "\<And>lvl msg. P (Log lvl msg)"
    and "frame P (dispatch w images query rh rw model_choice)"
  shows "frame P (generate_response w images query sid rh rw model_choice)"
  unfolding generate_response_def by (intro frame_intros assms)

lemma yieldsI: "(\<And>s x. fst (m s) = Inr x \<Longrightarrow> Q x) \<Longrightarrow> yields Q m"
  by (simp add: yields_def)

lemma yieldsD: "yields Q m \<Longrightarrow> fst (m s) = Inr x \<Longrightarrow> Q x"
  by (simp add: yields_def)

lemma yields_ret: "Q x \<Longrightarrow> yields Q (ret x)"
  by (simp add: yields_def ret_def)

lemma yields_raise: "yields Q (raise e)"
  by (simp add: yields_def raise_def)

lemma yields_bind:
  assumes "\<And>x. yields Q (f x)"
  shows "yields Q (bind_run m f)"
proof (rule yieldsI)
  fix s y
  assume a: "fst (bind_run m f s) = Inr y"
  obtain r s' where ms: "m s = (r, s')" by (cases "m s")
  show "Q y"
  proof (cases r)
    case (Inl e)
    with ms a show ?thesis by (simp add: bind_run_def)
  next
    case (Inr x)
    with ms a have "fst (f x s') = Inr y" by (simp add: bind_run_def)
    with assms show ?thesis by (rule yieldsD)
  qed
qed

lemma yields_try_except:
  assumes "yields Q m" and "\<And>e. yields Q (h e)"
  shows "yields Q (try_except m h)"
proof (rule yieldsI)
  fix s y
  assume a: "fst (try_except m h s) = Inr y"
  obtain r s' where ms: "m s = (r, s')" by (cases "m s")
  show "Q y"
  proof (cases r)
    case (Inl e)
    with ms a have "fst (h e s') = Inr y" by (simp add: try_except_def)
    with assms(2) show ?thesis by (rule yieldsD)
  next
    case (Inr x)
    with ms a have "fst (m s) = Inr y" by (simp add: try_except_def)
    with assms(1) show ?thesis by (rule yieldsD)
  qed
qed

lemma yields_try_finally:
  assumes "yields Q m"
  shows "yields Q (try_finally m c)"
proof (rule yieldsI)
  fix s y
  assume a: "fst (try_finally m c s) = Inr y"
  obtain r s' where ms: "m s = (r, s')" by (cases "m s")
  obtain r2 s2 where cs: "c s' = (r2, s2)" by (cases "c s'")
  from a ms cs have "fst (m s) = Inr y"
    by (cases r2) (simp_all add: try_finally_def)
  with assms show "Q y" by (rule yieldsD)
qed

lemma yields_if: "(c \<Longrightarrow> yields Q a) \<Longrightarrow> (\<not> c \<Longrightarrow> yields Q b) \<Longrightarrow> yields Q (if c then a else b)"
  by simp

lemma yields_prod: "(\<And>a b. yields Q (f a b)) \<Longrightarrow> yields Q (case x of (a, b) \<Rightarrow> f a b)"
  by (cases x) simp

lemmas yields_intros = yields_bind yields_try_except yields_try_finally yields_if yields_prod
  yields_raise

lemmas run_defs = ret_def raise_def lift_def bind_run_def emit_def try_except_def
  try_finally_def deref_def assign_def index0_def row0_def unpack2_def unpack3_def logger_def
  load2_def load3_def open_rgb_def encode_image_def Let_def

lemmas call_defs = generate_response_def dispatch_def returned_def events_def
  heap_after_def start_def

lemma bind_ret: "bind_run (ret x) f = f x"
  by (simp add: bind_run_def ret_def)

lemma index0_Cons: "index0 (x # xs) = ret x"
  by (simp add: index0_def)

lemma not_pixels_mem: "list_all not_pixels T \<Longrightarrow> Pixels b imgs \<notin> set T"
  by (auto simp: list_all_iff not_pixels_def)

lemma not_infer_mem: "list_all not_infer T \<Longrightarrow> Infer b \<notin> set T"
  by (auto simp: list_all_iff not_infer_def)

section \<open>What each branch may emit\<close>

lemma frame_qwen:
  assumes "P (LoadModel ''qwen'')" "P (Prompt ''qwen'' (qwen_content images query rh rw))"
    "P (Infer ''qwen'')" "\<And>msg. P (Log Info msg)"
  shows "frame P (qwen_branch w images query rh rw)"
  unfolding qwen_branch_def Let_def
  by (intro frame_intros assms)

lemma frame_gemini_load:
  assumes "\<And>p. P (Exists p)" "\<And>p. P (OpenImage p)" "\<And>i. P (Opened i)" "\<And>lvl msg. P (Log lvl msg)"
  shows "frame P (gemini_load_image w img content)"
  unfolding gemini_load_image_def Let_def by (intro frame_intros assms)

lemma frame_gpt4_load:
  assumes "\<And>p. P (Exists p)" "\<And>p. P (ReadFile p)" "\<And>lvl msg. P (Log lvl msg)"
  shows "frame P (gpt4_load_image w img content)"
  unfolding gpt4_load_image_def Let_def encode_image_def by (intro frame_intros assms)

lemma frame_molmo_load:
  assumes "\<And>p. P (Exists p)" "\<And>p. P (OpenImage p)" "\<And>i. P (Opened i)" "\<And>lvl msg. P (Log lvl msg)"
  shows "frame P (molmo_load_image w img pil)"
  unfolding molmo_load_image_def Let_def by (intro frame_intros frame_open_rgb assms)

lemma frame_molmo_generate:
  assumes "P (Pixels ''molmo'' pil)" "P (Infer ''molmo'')"
  shows "frame P (molmo_generate w model processor device pil query)"
  unfolding molmo_generate_def Let_def by (intro frame_intros assms)

lemma frame_any_gemini: "frame (\<lambda>e. True) (gemini_branch w images query)"
  unfolding gemini_branch_def by (intro frame_intros frame_gemini_load) simp_all

lemma frame_any_gpt4: "frame (\<lambda>e. True) (gpt4_branch w images query)"
  unfolding gpt4_branch_def Let_def by (intro frame_intros frame_gpt4_load) simp_all

lemma frame_any_llama: "frame (\<lambda>e. True) (llama_branch w images query)"
  unfolding llama_branch_def Let_def by (intro frame_intros frame_open_rgb) simp_all

lemma frame_any_pixtral: "frame (\<lambda>e. True) (pixtral_branch w images query)"
  unfolding pixtral_branch_def Let_def image_to_data_url_def by (intro frame_intros) simp_all

lemma frame_any_qwen: "frame (\<lambda>e. True) (qwen_branch w images query rh rw)"
  by (rule frame_qwen) simp_all

lemma frame_any_dispatch:
  "model_choice \<noteq> ''molmo'' \<Longrightarrow> frame (\<lambda>e. True) (dispatch w images query rh rw model_choice)"
  unfolding dispatch_def
  by (auto intro!: frame_any_qwen frame_any_gemini frame_any_gpt4 frame_any_llama frame_any_pixtral
        frame_bind frame_logger frame_ret)

lemma frame_molmo_rest:
  "frame (\<lambda>e. True) (bind_run (for_acc (take 1 images) [] (molmo_load_image w)) (\<lambda>pil_images.
     if pil_images = [] then ret (PyStr no_images)
     else
       try_finally
         (try_except
            (molmo_generate w model processor device pil_images query)
            (\<lambda>e. bind_run (logger Error (''Error in Molmo processing: '' @ str e))
               (\<lambda>u. ret (PyStr (processing_error e)))))
         (for_each pil_images (\<lambda>img. emit (CloseImage img)))))"
  by (intro frame_intros frame_molmo_load frame_molmo_generate) simp_all

section \<open>From \<open>dispatch\<close> to \<open>generate_response\<close>\<close>

lemma generate_response_heap:
  "heap (snd (generate_response w images query sid rh rw model_choice s))
     = heap (snd (dispatch w images query rh rw model_choice
          (s\<lparr>trace := trace s @ [Log Info (''Generating response using model '' @ [CHR 0x27]
             @ model_choice @ [CHR 0x27] @ ''.'')]\<rparr>)))"
  by (simp add: generate_response_def run_defs split: prod.split sum.split)

lemma generate_response_trace:
  "\<exists>extra. trace (snd (generate_response w images query sid rh rw model_choice s))
     = trace (snd (dispatch w images query rh rw model_choice
          (s\<lparr>trace := trace s @ [greeting model_choice]\<rparr>))) @ extra
     \<and> list_all not_pixels extra"
  by (simp add: generate_response_def run_defs not_pixels_def greeting_def
      split: prod.split sum.split)

lemma generate_response_value:
  assumes "dispatch w images query rh rw model_choice (s\<lparr>trace := trace s @ [greeting model_choice]\<rparr>)
     = (Inr v, s')"
  shows "generate_response w images query sid rh rw model_choice s = (Inr v, s')"
  using assms by (simp add: generate_response_def run_defs greeting_def)

lemma sentinel_from_branch:
  assumes "\<And>s. \<exists>s' T. dispatch w images query rh rw model_choice s = (Inr v, s')
      \<and> trace s' = trace s @ T \<and> list_all not_infer T"
  shows "returned (generate_response w images query sid rh rw model_choice) h = Inr v
       \<and> Infer b \<notin> set (events (generate_response w images query sid rh rw model_choice) h)"
proof -
  let ?s1 = "(start h)\<lparr>trace := trace (start h) @ [greeting model_choice]\<rparr>"
  from assms [of ?s1] obtain s' T where
    d: "dispatch w images query rh rw model_choice ?s1 = (Inr v, s')"
    and tr: "trace s' = trace ?s1 @ T"
    and T: "list_all not_infer T" by blast
  from generate_response_value [OF d, where sid = sid] tr not_infer_mem [OF T, of b]
  show ?thesis by (simp add: returned_def events_def start_def greeting_def)
qed

section \<open>The claims\<close>

subsection \<open>C1: the failure boundary and the returned value\<close>

text \<open>
  The outer handler catches whatever a branch raises, so a call always returns; and on
  every branch but gpt4 the value returned is a string.
\<close>

lemma generate_response_never_raises:
  "\<exists>v. returned (generate_response w images query sid rh rw model_choice) h = Inr v"
  by (simp add: generate_response_def returned_def try_except_def bind_run_def ret_def
      logger_def emit_def split: prod.split sum.split)

lemma truthy_is_string: "truthy v \<Longrightarrow> \<exists>t. v = PyStr t"
  by (cases v) simp_all

lemma yields_string_ret: "yields (\<lambda>v. \<exists>t. v = PyStr t) (ret (PyStr t))"
  by (rule yields_ret) simp

lemma yields_string_qwen: "yields (\<lambda>v. \<exists>t. v = PyStr t) (qwen_branch w images query rh rw)"
  unfolding qwen_branch_def Let_def by (intro yields_intros yields_string_ret)

lemma yields_string_gemini: "yields (\<lambda>v. \<exists>t. v = PyStr t) (gemini_branch w images query)"
  unfolding gemini_branch_def
  by (intro yields_intros yields_string_ret yields_ret truthy_is_string)

lemma yields_string_llama: "yields (\<lambda>v. \<exists>t. v = PyStr t) (llama_branch w images query)"
  unfolding llama_branch_def Let_def by (intro yields_intros yields_string_ret)

lemma yields_string_pixtral: "yields (\<lambda>v. \<exists>t. v = PyStr t) (pixtral_branch w images query)"
  unfolding pixtral_branch_def Let_def by (intro yields_intros yields_string_ret)

lemma yields_string_molmo: "yields (\<lambda>v. \<exists>t. v = PyStr t) (molmo_branch w images query)"
  unfolding molmo_branch_def molmo_generate_def Let_def by (intro yields_intros yields_string_ret)

lemma yields_string_dispatch:
  assumes "model_choice \<noteq> ''gpt4''"
  shows "yields (\<lambda>v. \<exists>t. v = PyStr t) (dispatch w images query rh rw model_choice)"
  unfolding dispatch_def using assms
  by (simp add: yields_string_qwen yields_string_gemini yields_string_llama
      yields_string_pixtral yields_string_molmo yields_bind yields_string_ret)

lemma returns_string_unless_gpt4:
  assumes "model_choice \<noteq> ''gpt4''"
  shows "\<exists>t. returned (generate_response w images query sid rh rw model_choice) h = Inr (PyStr t)"
proof -
  let ?s1 = "(start h)\<lparr>trace := trace (start h) @ [greeting model_choice]\<rparr>"
  obtain r s' where d: "dispatch w images query rh rw model_choice ?s1 = (r, s')"
    by (cases "dispatch w images query rh rw model_choice ?s1")
  show ?thesis
  proof (cases r)
    case (Inl e)
    with d show ?thesis
      by (simp add: generate_response_def returned_def run_defs greeting_def)
  next
    case (Inr v)
    with d have "fst (dispatch w images query rh rw model_choice ?s1) = Inr v" by simp
    from yieldsD [OF yields_string_dispatch [OF assms] this]
    obtain t where "v = PyStr t" by blast
    with d Inr show ?thesis
      by (simp add: generate_response_def returned_def run_defs greeting_def)
  qed
qed

text \<open>
  C1. The claim: no exception of a branch reaches the caller and the value returned is
  always a string that is not null, on the gpt4 branch in particular. The gpt4 branch
  returns \<open>response.choices[0].message.content\<close> as it is: when the file \<open>static/a.png\<close>
  exists and the remote call answers with one choice whose content is \<open>None\<close>, the call
  returns \<open>None\<close>.
\<close>

theorem gpt4_returns_none:
  "returned (generate_response
       (demo_world\<lparr>chat_completions_create := \<lambda>c name content n. Inr [PyNone]\<rparr>)
       [''a.png''] ''describe'' () 280 280 ''gpt4'') demo_heap = Inr PyNone"
  by (simp add: call_defs run_defs gpt4_branch_def gpt4_load_image_def demo_world_def
      static_join_def)

subsection \<open>C2: no usable image\<close>

lemma gemini_load_unusable:
  assumes "\<not> path_exists w (static_join img) \<or> (\<exists>e. image_open w (static_join img) = Inl e)"
  shows "\<exists>T. gemini_load_image w img content s = (Inr content, s\<lparr>trace := trace s @ T\<rparr>)
           \<and> list_all not_infer T"
  using assms by (auto simp: gemini_load_image_def run_defs not_infer_def)

lemma gemini_loop_unusable:
  assumes "\<forall>img\<in>set images. \<not> path_exists w (static_join img)
             \<or> (\<exists>e. image_open w (static_join img) = Inl e)"
  shows "\<exists>T. for_acc images content (gemini_load_image w) s = (Inr content, s\<lparr>trace := trace s @ T\<rparr>)
           \<and> list_all not_infer T"
  using assms
proof (induction images arbitrary: s)
  case Nil
  show ?case by (rule exI [of _ "[]"]) (simp add: ret_def)
next
  case (Cons x xs)
  from Cons.prems gemini_load_unusable [of w x content s] obtain T1 where
    one: "gemini_load_image w x content s = (Inr content, s\<lparr>trace := trace s @ T1\<rparr>)"
    "list_all not_infer T1" by auto
  from Cons.prems Cons.IH [of "s\<lparr>trace := trace s @ T1\<rparr>"] obtain T where
    rest: "for_acc xs content (gemini_load_image w) (s\<lparr>trace := trace s @ T1\<rparr>)
        = (Inr content, s\<lparr>trace := trace s @ T1\<rparr>\<lparr>trace := trace (s\<lparr>trace := trace s @ T1\<rparr>) @ T\<rparr>)"
    "list_all not_infer T" by auto
  have "for_acc (x # xs) content (gemini_load_image w) s
      = (Inr content, s\<lparr>trace := trace s @ (T1 @ T)\<rparr>)"
    using one(1) rest(1) by (simp add: bind_run_def)
  moreover have "list_all not_infer (T1 @ T)" using one(2) rest(2) by simp
  ultimately show ?case by blast
qed

lemma gpt4_load_unusable:
  assumes "\<not> path_exists w (static_join img)"
  shows "\<exists>T. gpt4_load_image w img content s = (Inr content, s\<lparr>trace := trace s @ T\<rparr>)
           \<and> list_all not_infer T"
  using assms by (auto simp: gpt4_load_image_def run_defs not_infer_def)

lemma gpt4_loop_unusable:
  assumes "\<forall>img\<in>set images. \<not> path_exists w (static_join img)"
  shows "\<exists>T. for_acc images content (gpt4_load_image w) s = (Inr content, s\<lparr>trace := trace s @ T\<rparr>)
           \<and> list_all not_infer T"
  using assms
proof (induction images arbitrary: s)
  case Nil
  show ?case by (rule exI [of _ "[]"]) (simp add: ret_def)
next
  case (Cons x xs)
  from Cons.prems gpt4_load_unusable [of w x content s] obtain T1 where
    one: "gpt4_load_image w x content s = (Inr content, s\<lparr>trace := trace s @ T1\<rparr>)"
    "list_all not_infer T1" by auto
  from Cons.prems Cons.IH [of "s\<lparr>trace := trace s @ T1\<rparr>"] obtain T where
    rest: "for_acc xs content (gpt4_load_image w) (s\<lparr>trace := trace s @ T1\<rparr>)
        = (Inr content, s\<lparr>trace := trace s @ T1\<rparr>\<lparr>trace := trace (s\<lparr>trace := trace s @ T1\<rparr>) @ T\<rparr>)"
    "list_all not_infer T" by auto
  have "for_acc (x # xs) content (gpt4_load_image w) s
      = (Inr content, s\<lparr>trace := trace s @ (T1 @ T)\<rparr>)"
    using one(1) rest(1) by (simp add: bind_run_def)
  moreover have "list_all not_infer (T1 @ T)" using one(2) rest(2) by simp
  ultimately show ?case by blast
qed

lemma molmo_loop_unusable:
  assumes "images = [] \<or> \<not> path_exists w (static_join (hd images))
     \<or> (\<exists>e. image_open w (static_join (hd images)) = Inl e)
     \<or> (\<exists>raw e. image_open w (static_join (hd images)) = Inr raw \<and> image_convert w raw = Inl e)"
  shows "\<exists>T. for_acc (take 1 images) [] (molmo_load_image w) s = (Inr [], s\<lparr>trace := trace s @ T\<rparr>)
           \<and> list_all not_infer T"
proof (cases images)
  case Nil
  show ?thesis unfolding Nil by (rule exI [of _ "[]"]) (simp add: ret_def)
next
  case (Cons x xs)
  with assms show ?thesis
    by (auto simp: molmo_load_image_def run_defs not_infer_def)
qed

lemma gemini_sentinel:
  assumes "load_model w ''gemini'' = Inr [m, x]"
    and "\<forall>img\<in>set images. \<not> path_exists w (static_join img)
             \<or> (\<exists>e. image_open w (static_join img) = Inl e)"
  shows "\<exists>s' T. gemini_branch w images query s = (Inr (PyStr no_images), s')
           \<and> trace s' = trace s @ T \<and> list_all not_infer T"
proof -
  let ?s1 = "s\<lparr>trace := trace s @ [LoadModel ''gemini'']\<rparr>"
  from gemini_loop_unusable [OF assms(2), of "[Text query]" ?s1] obtain T where
    loop: "for_acc images [Text query] (gemini_load_image w) ?s1
        = (Inr [Text query], ?s1\<lparr>trace := trace ?s1 @ T\<rparr>)" and T: "list_all not_infer T"
    by blast
  have "gemini_branch w images query s
      = (Inr (PyStr no_images), s\<lparr>trace := trace s @ (LoadModel ''gemini'' # T)\<rparr>)"
    using assms(1) loop by (simp add: gemini_branch_def run_defs)
  moreover have "list_all not_infer (LoadModel ''gemini'' # T)" using T by (simp add: not_infer_def)
  ultimately show ?thesis by auto
qed

lemma gpt4_sentinel:
  assumes "openai_client w (getenv w ''OPENAI_API_KEY'') = Inr client"
    and "\<forall>img\<in>set images. \<not> path_exists w (static_join img)"
  shows "\<exists>s' T. gpt4_branch w images query s = (Inr (PyStr no_images), s')
           \<and> trace s' = trace s @ T \<and> list_all not_infer T"
proof -
  from gpt4_loop_unusable [OF assms(2), of "[Text query]" s] obtain T where
    loop: "for_acc images [Text query] (gpt4_load_image w) s
        = (Inr [Text query], s\<lparr>trace := trace s @ T\<rparr>)" and T: "list_all not_infer T"
    by blast
  have "gpt4_branch w images query s = (Inr (PyStr no_images), s\<lparr>trace := trace s @ T\<rparr>)"
    using assms(1) loop by (simp add: gpt4_branch_def run_defs)
  with T show ?thesis by auto
qed

lemma molmo_sentinel:
  assumes "load_model w ''molmo'' = Inr [m, p, d]"
    and "images = [] \<or> \<not> path_exists w (static_join (hd images))
     \<or> (\<exists>e. image_open w (static_join (hd images)) = Inl e)
     \<or> (\<exists>raw e. image_open w (static_join (hd images)) = Inr raw \<and> image_convert w raw = Inl e)"
  shows "\<exists>s' T. molmo_branch w images query s = (Inr (PyStr no_images), s')
           \<and> trace s' = trace s @ T \<and> list_all not_infer T"
proof -
  let ?s1 = "s\<lparr>trace := trace s @ [LoadModel ''molmo''], heap := (heap s)(m := half (heap s m))\<rparr>"
  from molmo_loop_unusable [OF assms(2), of ?s1] obtain T where
    loop: "for_acc (take 1 images) [] (molmo_load_image w) ?s1
        = (Inr [], ?s1\<lparr>trace := trace ?s1 @ T\<rparr>)" and T: "list_all not_infer T"
    by blast
  have "molmo_branch w images query s
      = (Inr (PyStr no_images), ?s1\<lparr>trace := trace ?s1 @ T\<rparr>)"
    using assms(1) loop by (simp add: molmo_branch_def run_defs)
  moreover have "trace (?s1\<lparr>trace := trace ?s1 @ T\<rparr>) = trace s @ (LoadModel ''molmo'' # T)"
    by simp
  moreover have "list_all not_infer (LoadModel ''molmo'' # T)" using T by (simp add: not_infer_def)
  ultimately show ?thesis by blast
qed

text \<open>
  C2, as amended. The branches that check for images are gemini, gpt4 and molmo. Once the
  handle is there (the loader returns the objects the branch unpacks; for gpt4, the client
  is constructed), the call returns \<open>No images could be loaded for analysis.\<close> and the
  inference call is not entered when: on gemini, no listed file both exists and opens; on
  gpt4, no listed file exists; on molmo, the list is empty or its first file is missing
  or cannot be opened and converted.
\<close>

theorem no_usable_images_sentinel:
  "(load_model w ''gemini'' = Inr [m, x]
      \<and> (\<forall>img\<in>set images. \<not> path_exists w (static_join img)
             \<or> (\<exists>e. image_open w (static_join img) = Inl e))
    \<longrightarrow> returned (generate_response w images query sid rh rw ''gemini'') h
          = Inr (PyStr ''No images could be loaded for analysis.'')
      \<and> Infer b \<notin> set (events (generate_response w images query sid rh rw ''gemini'') h))
   \<and> (openai_client w (getenv w ''OPENAI_API_KEY'') = Inr client
      \<and> (\<forall>img\<in>set images. \<not> path_exists w (static_join img))
    \<longrightarrow> returned (generate_response w images query sid rh rw ''gpt4'') h
          = Inr (PyStr ''No images could be loaded for analysis.'')
      \<and> Infer b \<notin> set (events (generate_response w images query sid rh rw ''gpt4'') h))
   \<and> (load_model w ''molmo'' = Inr [m, p, d]
      \<and> (images = [] \<or> \<not> path_exists w (static_join (hd images))
         \<or> (\<exists>e. image_open w (static_join (hd images)) = Inl e)
         \<or> (\<exists>raw e. image_open w (static_join (hd images)) = Inr raw
               \<and> image_convert w raw = Inl e))
    \<longrightarrow> returned (generate_response w images query sid rh rw ''molmo'') h
          = Inr (PyStr ''No images could be loaded for analysis.'')
      \<and> Infer b \<notin> set (events (generate_response w images query sid rh rw ''molmo'') h))"
proof (intro conjI impI; elim conjE)
  assume "load_model w ''gemini'' = Inr [m, x]"
    and "\<forall>img\<in>set images. \<not> path_exists w (static_join img)
             \<or> (\<exists>e. image_open w (static_join img) = Inl e)"
  from gemini_sentinel [OF this]
  have "\<And>s. \<exists>s' T. dispatch w images query rh rw ''gemini'' s = (Inr (PyStr no_images), s')
      \<and> trace s' = trace s @ T \<and> list_all not_infer T"
    by (simp add: dispatch_def)
  from sentinel_from_branch [OF this, where sid = sid and h = h and b = b]
  show "returned (generate_response w images query sid rh rw ''gemini'') h
          = Inr (PyStr ''No images could be loaded for analysis.'')"
    and "Infer b \<notin> set (events (generate_response w images query sid rh rw ''gemini'') h)"
    by (simp_all add: no_images_def)
next
  assume "openai_client w (getenv w ''OPENAI_API_KEY'') = Inr client"
    and "\<forall>img\<in>set images. \<not> path_exists w (static_join img)"
  from gpt4_sentinel [OF this]
  have "\<And>s. \<exists>s' T. dispatch w images query rh rw ''gpt4'' s = (Inr (PyStr no_images), s')
      \<and> trace s' = trace s @ T \<and> list_all not_infer T"
    by (simp add: dispatch_def)
  from sentinel_from_branch [OF this, where sid = sid and h = h and b = b]
  show "returned (generate_response w images query sid rh rw ''gpt4'') h
          = Inr (PyStr ''No images could be loaded for analysis.'')"
    and "Infer b \<notin> set (events (generate_response w images query sid rh rw ''gpt4'') h)"
    by (simp_all add: no_images_def)
next
  assume "load_model w ''molmo'' = Inr [m, p, d]"
    and "images = [] \<or> \<not> path_exists w (static_join (hd images))
         \<or> (\<exists>e. image_open w (static_join (hd images)) = Inl e)
         \<or> (\<exists>raw e. image_open w (static_join (hd images)) = Inr raw
               \<and> image_convert w raw = Inl e)"
  from molmo_sentinel [OF this]
  have "\<And>s. \<exists>s' T. dispatch w images query rh rw ''molmo'' s = (Inr (PyStr no_images), s')
      \<and> trace s' = trace s @ T \<and> list_all not_infer T"
    by (simp add: dispatch_def)
  from sentinel_from_branch [OF this, where sid = sid and h = h and b = b]
  show "returned (generate_response w images query sid rh rw ''molmo'') h
          = Inr (PyStr ''No images could be loaded for analysis.'')"
    and "Infer b \<notin> set (events (generate_response w images query sid rh rw ''molmo'') h)"
    by (simp_all add: no_images_def)
qed

text \<open>
  The amended statement at the two scenarios of the specification (a missing file on
  gemini, an empty list on gpt4) and at a list whose first file is missing on molmo.
\<close>

theorem no_usable_images_sentinel_witness:
  "returned (generate_response demo_world [''missing.png''] ''what is this?'' () 280 280 ''gemini'')
       demo_heap = Inr (PyStr ''No images could be loaded for analysis.'')
   \<and> Infer ''gemini'' \<notin> set (events
       (generate_response demo_world [''missing.png''] ''what is this?'' () 280 280 ''gemini'') demo_heap)
   \<and> returned (generate_response demo_world [] ''describe this'' () 280 280 ''gpt4'')
       demo_heap = Inr (PyStr ''No images could be loaded for analysis.'')
   \<and> Infer ''gpt4'' \<notin> set (events
       (generate_response demo_world [] ''describe this'' () 280 280 ''gpt4'') demo_heap)
   \<and> returned (generate_response demo_world [''missing.png'', ''a.png''] ''describe'' () 280 280 ''molmo'')
       demo_heap = Inr (PyStr ''No images could be loaded for analysis.'')
   \<and> Infer ''molmo'' \<notin> set (events
       (generate_response demo_world [''missing.png'', ''a.png''] ''describe'' () 280 280 ''molmo'') demo_heap)"
proof -
  have g: "load_model demo_world ''gemini'' = Inr [0, 1]
      \<and> (\<forall>img\<in>set [''missing.png'']. \<not> path_exists demo_world (static_join img)
             \<or> (\<exists>e. image_open demo_world (static_join img) = Inl e))"
    by (simp add: demo_world_def static_join_def)
  have o: "openai_client demo_world (getenv demo_world ''OPENAI_API_KEY'')
        = Inr \<lparr>dtype = Float32, ident = 9\<rparr>
      \<and> (\<forall>img\<in>set []. \<not> path_exists demo_world (static_join img))"
    by (simp add: demo_world_def)
  have m: "load_model demo_world ''molmo'' = Inr [0, 1, 2]
      \<and> ([''missing.png'', ''a.png''] = []
         \<or> \<not> path_exists demo_world (static_join (hd [''missing.png'', ''a.png'']))
         \<or> (\<exists>e. image_open demo_world (static_join (hd [''missing.png'', ''a.png''])) = Inl e)
         \<or> (\<exists>raw e. image_open demo_world (static_join (hd [''missing.png'', ''a.png''])) = Inr raw
               \<and> image_convert demo_world raw = Inl e))"
    by (simp add: demo_world_def static_join_def)
  from g no_usable_images_sentinel [where w = demo_world and images = "[''missing.png'']"
      and m = 0 and x = 1 and query = "''what is this?''" and sid = "()" and rh = 280 and rw = 280
      and h = demo_heap and b = "''gemini''"]
  have 1: "returned (generate_response demo_world [''missing.png''] ''what is this?'' () 280 280 ''gemini'')
       demo_heap = Inr (PyStr ''No images could be loaded for analysis.'')
   \<and> Infer ''gemini'' \<notin> set (events
       (generate_response demo_world [''missing.png''] ''what is this?'' () 280 280 ''gemini'') demo_heap)"
    by blast
  from o no_usable_images_sentinel [where w = demo_world and images = "[]"
      and client = "\<lparr>dtype = Float32, ident = 9\<rparr>" and query = "''describe this''" and sid = "()"
      and rh = 280 and rw = 280 and h = demo_heap and b = "''gpt4''"]
  have 2: "returned (generate_response demo_world [] ''describe this'' () 280 280 ''gpt4'')
       demo_heap = Inr (PyStr ''No images could be loaded for analysis.'')
   \<and> Infer ''gpt4'' \<notin> set (events
       (generate_response demo_world [] ''describe this'' () 280 280 ''gpt4'') demo_heap)"
    by blast
  from m no_usable_images_sentinel [where w = demo_world and images = "[''missing.png'', ''a.png'']"
      and m = 0 and p = 1 and d = 2 and query = "''describe''" and sid = "()"
      and rh = 280 and rw = 280 and h = demo_heap and b = "''molmo''"]
  have 3: "returned (generate_response demo_world [''missing.png'', ''a.png''] ''describe'' () 280 280 ''molmo'')
       demo_heap = Inr (PyStr ''No images could be loaded for analysis.'')
   \<and> Infer ''molmo'' \<notin> set (events
       (generate_response demo_world [''missing.png'', ''a.png''] ''describe'' () 280 280 ''molmo'') demo_heap)"
    by blast
  from 1 2 3 show ?thesis by blast
qed

text \<open>
  C2 as stated fails: with an empty list the qwen branch calls the model and returns its
  answer; the llama-vision branch with an empty list and the pixtral branch with a missing
  file return the generic failure text; and so does gemini when the loader raises.
\<close>

theorem sentinel_not_on_every_branch:
  "returned (generate_response demo_world [] ''describe'' () 280 280 ''qwen'') demo_heap
      = Inr (PyStr ''a cat'')
   \<and> Infer ''qwen'' \<in> set
       (events (generate_response demo_world [] ''describe'' () 280 280 ''qwen'') demo_heap)
   \<and> returned (generate_response demo_world [] ''describe'' () 280 280 ''llama-vision'') demo_heap
      = Inr (PyStr ''An error occurred while generating the response.'')
   \<and> returned (generate_response demo_world [''missing.png''] ''describe'' () 280 280 ''pixtral'') demo_heap
      = Inr (PyStr ''An error occurred while generating the response.'')
   \<and> returned (generate_response
        (demo_world\<lparr>load_model := \<lambda>key. Inl (Exception ''no weights'')\<rparr>)
        [] ''describe'' () 280 280 ''gemini'') demo_heap
      = Inr (PyStr ''An error occurred while generating the response.'')"
  by (simp add: call_defs run_defs qwen_branch_def qwen_content_def llama_branch_def
      pixtral_branch_def image_to_data_url_def gemini_branch_def demo_world_def static_join_def
      generic_error_def)

subsection \<open>C3: an unknown model choice\<close>

text \<open>
  C3. For a \<open>model_choice\<close> that is none of the six keys the call returns
  \<open>Invalid model selected.\<close> (it does not raise) and \<open>load_model\<close> is not called with any
  key.
\<close>

theorem unknown_model_choice:
  assumes "model_choice \<notin> {''qwen'', ''gemini'', ''gpt4'', ''llama-vision'', ''pixtral'', ''molmo''}"
  shows "returned (generate_response w images query sid rh rw model_choice) h
           = Inr (PyStr ''Invalid model selected.'')
       \<and> LoadModel key \<notin> set (events (generate_response w images query sid rh rw model_choice) h)"
  using assms by (simp add: call_defs run_defs invalid_model_def)

text \<open>The key \<open>gpt5\<close> is such a choice.\<close>

theorem unknown_model_choice_witness:
  "''gpt5'' \<notin> {''qwen'', ''gemini'', ''gpt4'', ''llama-vision'', ''pixtral'', ''molmo''}
   \<and> returned (generate_response demo_world [''a.png''] ''describe'' () 280 280 ''gpt5'') demo_heap
           = Inr (PyStr ''Invalid model selected.'')
   \<and> LoadModel ''gpt5'' \<notin> set (events (generate_response demo_world [''a.png''] ''describe'' () 280 280 ''gpt5'') demo_heap)"
  using unknown_model_choice [of "''gpt5''" demo_world "[''a.png'']" "''describe''" "()" 280 280 demo_heap "''gpt5''"]
  by simp

subsection \<open>C4: the state of the handle objects\<close>

lemma molmo_heap_loaded:
  assumes "load_model w ''molmo'' = Inr [m, p, d]"
  shows "heap (snd (molmo_branch w images query s)) = (heap s)(m := half (heap s m))"
proof -
  let ?s2 = "s\<lparr>trace := trace s @ [LoadModel ''molmo''], heap := (heap s)(m := half (heap s m))\<rparr>"
  from frameD [OF frame_molmo_rest [where w=w and images=images and model=m and processor=p
      and device=d and query=query], of ?s2]
  show ?thesis
    using assms by (auto simp: molmo_branch_def run_defs)
qed

lemma molmo_heap_not_loaded:
  assumes "\<And>m p d. load_model w ''molmo'' \<noteq> Inr [m, p, d]"
  shows "heap (snd (molmo_branch w images query s)) = heap s"
  using assms
  by (auto simp: molmo_branch_def run_defs split: sum.split list.split)

text \<open>
  C4, as amended. On every branch but molmo the handle objects are in the same state after
  the call as before. On the molmo branch, when the loader returns its three objects, the
  model object has been converted to half precision in place by \<open>model.half()\<close> and
  nothing else has changed; when the loader does not, nothing has changed.
\<close>

theorem handle_state_after_call:
  "(model_choice \<noteq> ''molmo'' \<longrightarrow>
      heap_after (generate_response w images query sid rh rw model_choice) h = h)
   \<and> (load_model w ''molmo'' = Inr [m, p, d] \<longrightarrow>
      heap_after (generate_response w images query sid rh rw ''molmo'') h = h(m := half (h m)))
   \<and> ((\<forall>m p d. load_model w ''molmo'' \<noteq> Inr [m, p, d]) \<longrightarrow>
      heap_after (generate_response w images query sid rh rw ''molmo'') h = h)"
proof (intro conjI impI)
  assume "model_choice \<noteq> ''molmo''"
  then have "frame (\<lambda>e. True) (generate_response w images query sid rh rw model_choice)"
    by (intro frame_generate_response frame_any_dispatch) simp_all
  then show "heap_after (generate_response w images query sid rh rw model_choice) h = h"
    by (rule frame_heap)
next
  assume "load_model w ''molmo'' = Inr [m, p, d]"
  then show "heap_after (generate_response w images query sid rh rw ''molmo'') h = h(m := half (h m))"
    by (simp add: heap_after_def generate_response_heap dispatch_def molmo_heap_loaded start_def)
next
  assume "\<forall>m p d. load_model w ''molmo'' \<noteq> Inr [m, p, d]"
  then show "heap_after (generate_response w images query sid rh rw ''molmo'') h = h"
    by (simp add: heap_after_def generate_response_heap dispatch_def molmo_heap_not_loaded start_def)
qed

text \<open>The three cases in the sample world, and in one whose loader raises.\<close>

theorem handle_state_after_call_witness:
  "''qwen'' \<noteq> ''molmo''
   \<and> heap_after (generate_response demo_world [''a.png''] ''describe'' () 280 280 ''qwen'') demo_heap
       = demo_heap
   \<and> load_model demo_world ''molmo'' = Inr [0, 1, 2]
   \<and> heap_after (generate_response demo_world [''a.png''] ''describe'' () 280 280 ''molmo'') demo_heap
       = demo_heap(0 := half (demo_heap 0))
   \<and> (\<forall>m p d. load_model (demo_world\<lparr>load_model := \<lambda>key. Inl (Exception ''no weights'')\<rparr>) ''molmo''
         \<noteq> Inr [m, p, d])
   \<and> heap_after (generate_response (demo_world\<lparr>load_model := \<lambda>key. Inl (Exception ''no weights'')\<rparr>)
         [''a.png''] ''describe'' () 280 280 ''molmo'') demo_heap = demo_heap"
proof -
  have a: "''qwen'' \<noteq> ''molmo''" by simp
  have b: "load_model demo_world ''molmo'' = Inr [0, 1, 2]" by (simp add: demo_world_def)
  have c: "\<forall>m p d. load_model (demo_world\<lparr>load_model := \<lambda>key. Inl (Exception ''no weights'')\<rparr>) ''molmo''
         \<noteq> Inr [m, p, d]" by simp
  from a b c
    handle_state_after_call [of "''qwen''" demo_world "[''a.png'']" "''describe''" "()" 280 280 demo_heap 0 1 2]
    handle_state_after_call [of "''qwen''" "demo_world\<lparr>load_model := \<lambda>key. Inl (Exception ''no weights'')\<rparr>"
       "[''a.png'']" "''describe''" "()" 280 280 demo_heap 0 1 2]
  show ?thesis by blast
qed

text \<open>
  C4 as stated fails on molmo: the cached model is single precision before the call and
  half precision after it.
\<close>

theorem molmo_halves_cached_model:
  "dtype (demo_heap 0) = Float32
   \<and> dtype (heap_after (generate_response demo_world [''a.png''] ''describe'' () 280 280 ''molmo'')
        demo_heap 0) = Float16"
  by (simp add: call_defs run_defs molmo_branch_def molmo_load_image_def molmo_generate_def
      demo_world_def demo_heap_def half_def static_join_def)

subsection \<open>C5: an empty text from a remote backend\<close>

text \<open>
  The gemini branch tests \<open>response.text\<close> and returns its own sentence when the text is
  empty or \<open>None\<close>.
\<close>

lemma gemini_empty_text:
  assumes "load_model w ''gemini'' = Inr [m, x]"
    and "path_exists w (static_join a)"
    and "image_open w (static_join a) = Inr img"
    and "generate_content w (h m) [Text query, ImageObj img] = Inr (Inr text)"
    and "\<not> truthy text"
  shows "returned (generate_response w [a] query sid rh rw ''gemini'') h
     = Inr (PyStr ''The Gemini model did not generate any text response.'')"
  using assms by (simp add: call_defs run_defs gemini_branch_def gemini_load_image_def)

text \<open>
  C5. The claim: a successful remote call with an empty or absent text gives a sentence
  saying so, on gemini and on gpt4. The gpt4 branch has no such test: when the remote call
  answers with one choice whose content is the empty string, the call returns the empty
  string.
\<close>

theorem gpt4_returns_empty_text:
  "returned (generate_response
       (demo_world\<lparr>chat_completions_create := \<lambda>c name content n. Inr [PyStr '''']\<rparr>)
       [''a.png''] ''describe'' () 280 280 ''gpt4'') demo_heap = Inr (PyStr '''')"
  by (simp add: call_defs run_defs gpt4_branch_def gpt4_load_image_def demo_world_def
      static_join_def)

subsection \<open>C6: the sizing hints of qwen\<close>







subsection \<open>C7: llama-vision uses the first image\<close>

lemma open_rgb_result:
  "open_rgb w p s = (Inr img, s') \<Longrightarrow>
     \<exists>raw. image_open w p = Inr raw \<and> image_convert w raw = Inr img"
  by (auto simp: run_defs split: sum.splits)

lemma llama_files:
  "frame (\<lambda>e. case e of OpenImage p \<Rightarrow> p = static_join a | Exists p \<Rightarrow> False
       | ReadFile p \<Rightarrow> False
       | Pixels k imgs \<Rightarrow> (\<exists>raw img. image_open w (static_join a) = Inr raw
            \<and> image_convert w raw = Inr img \<and> imgs = [img])
       | _ \<Rightarrow> True)
     (llama_branch w (a # rest) query)"
  unfolding llama_branch_def Let_def list.map index0_Cons bind_ret
proof (intro frame_bind [where m = "load3 w ''llama-vision''"] frame_load3 frame_prod, goal_cases)
  case 1
  show ?case by simp
next
  case (2 x model pd processor device)
  show ?case
  proof (rule frame_bind_res)
    show "frame (\<lambda>e. case e of OpenImage p \<Rightarrow> p = static_join a | Exists p \<Rightarrow> False
       | ReadFile p \<Rightarrow> False
       | Pixels k imgs \<Rightarrow> (\<exists>raw img. image_open w (static_join a) = Inr raw
            \<and> image_convert w raw = Inr img \<and> imgs = [img])
       | _ \<Rightarrow> True) (open_rgb w (static_join a))"
      by (rule frame_open_rgb) simp_all
  next
    fix img s s'
    assume "open_rgb w (static_join a) s = (Inr img, s')"
    from open_rgb_result [OF this]
    show "frame (\<lambda>e. case e of OpenImage p \<Rightarrow> p = static_join a | Exists p \<Rightarrow> False
       | ReadFile p \<Rightarrow> False
       | Pixels k imgs \<Rightarrow> (\<exists>raw img. image_open w (static_join a) = Inr raw
            \<and> image_convert w raw = Inr img \<and> imgs = [img])
       | _ \<Rightarrow> True)
      (bind_run (emit (Prompt ''llama-vision'' [ImageSlot, Text query]))
        (\<lambda>u. bind_run (deref processor)
          (\<lambda>p. bind_run (lift (apply_chat_template w p [ImageSlot, Text query]))
            (\<lambda>input_text. bind_run (emit (Pixels ''llama-vision'' [img]))
              (\<lambda>u. bind_run (lift (llama_processor w p img input_text))
                (\<lambda>inputs0. bind_run (deref device)
                  (\<lambda>d. bind_run (lift (to_device w inputs0 d))
                    (\<lambda>inputs. bind_run (emit (Infer ''llama-vision''))
                      (\<lambda>u. bind_run (deref model)
                        (\<lambda>m. bind_run (lift (model_generate w m inputs 512))
                          (\<lambda>output. bind_run (row0 output)
                            (\<lambda>output0. bind_run (lift (decode w p output0))
                              (\<lambda>response. ret (PyStr response))))))))))))))"
      by (intro frame_intros) auto
  qed
qed

text \<open>
  C7. With two images or more, the llama-vision branch does exactly what it does with the
  first alone. The only file it opens is the first one joined to the static root, it
  tests no path for existence and reads no file, and the one image it hands to the
  preprocessor is the first file, opened and converted. (The paths of all identifiers are
  computed by \<open>os.path.join\<close>, which touches no file.)
\<close>

theorem llama_first_image_only:
  "generate_response w (a # b # rest) query sid rh rw ''llama-vision''
     = generate_response w [a] query sid rh rw ''llama-vision''
   \<and> (OpenImage p \<in> set (events (generate_response w (a # b # rest) query sid rh rw ''llama-vision'') h)
        \<longrightarrow> p = static_join a)
   \<and> Exists p \<notin> set (events (generate_response w (a # b # rest) query sid rh rw ''llama-vision'') h)
   \<and> ReadFile p \<notin> set (events (generate_response w (a # b # rest) query sid rh rw ''llama-vision'') h)
   \<and> (Pixels k imgs \<in> set (events (generate_response w (a # b # rest) query sid rh rw ''llama-vision'') h)
        \<longrightarrow> (\<exists>raw img. image_open w (static_join a) = Inr raw
              \<and> image_convert w raw = Inr img \<and> imgs = [img]))"
proof -
  have same: "llama_branch w (a # b # rest) query = llama_branch w [a] query"
    by (simp add: llama_branch_def index0_Cons)
  have "frame (\<lambda>e. case e of OpenImage p \<Rightarrow> p = static_join a | Exists p \<Rightarrow> False
       | ReadFile p \<Rightarrow> False
       | Pixels k imgs \<Rightarrow> (\<exists>raw img. image_open w (static_join a) = Inr raw
            \<and> image_convert w raw = Inr img \<and> imgs = [img])
       | _ \<Rightarrow> True)
     (generate_response w (a # b # rest) query sid rh rw ''llama-vision'')"
    by (intro frame_generate_response) (simp_all add: dispatch_def llama_files)
  from frame_events [OF this, of h] show ?thesis
    by (auto simp: list_all_iff generate_response_def dispatch_def same)
qed

text \<open>The scenario of the specification: \<open>a.png\<close> and \<open>b.png\<close>.\<close>

theorem llama_first_image_only_witness:
  "OpenImage ''static/a.png'' \<in> set (events
      (generate_response demo_world [''a.png'', ''b.png''] ''compare'' () 280 280 ''llama-vision'') demo_heap)
   \<and> ''static/a.png'' = static_join ''a.png''
   \<and> Pixels ''llama-vision'' [8] \<in> set (events
      (generate_response demo_world [''a.png'', ''b.png''] ''compare'' () 280 280 ''llama-vision'') demo_heap)
   \<and> (\<exists>raw img. image_open demo_world (static_join ''a.png'') = Inr raw
         \<and> image_convert demo_world raw = Inr img \<and> [8] = [img])"
proof -
  have a: "OpenImage ''static/a.png'' \<in> set (events
      (generate_response demo_world [''a.png'', ''b.png''] ''compare'' () 280 280 ''llama-vision'') demo_heap)"
    and b: "Pixels ''llama-vision'' [8] \<in> set (events
      (generate_response demo_world [''a.png'', ''b.png''] ''compare'' () 280 280 ''llama-vision'') demo_heap)"
    by (simp_all add: call_defs run_defs llama_branch_def demo_world_def static_join_def)
  from a b
    llama_first_image_only [of demo_world "''a.png''" "''b.png''" "[]" "''compare''" "()" 280 280
      "''static/a.png''" demo_heap "''llama-vision''" "[8]"]
  show ?thesis by blast
qed

subsection \<open>C8: molmo and the images it opened\<close>

text \<open>
  What the \<open>finally\<close> block does: the images kept in \<open>pil_images\<close>, which are the images
  handed to the preprocessor, are closed later in the same call, whether generation
  returns or raises.
\<close>

lemma close_all:
  "for_each pil (\<lambda>img. emit (CloseImage img)) s = (Inr (), s\<lparr>trace := trace s @ map CloseImage pil\<rparr>)"
  by (induction pil arbitrary: s) (simp_all add: ret_def bind_run_def emit_def)

lemma molmo_branch_closes_kept:
  assumes handed: "Pixels b imgs \<in> set (trace (snd (molmo_branch w images query s)))"
    and fresh: "Pixels b imgs \<notin> set (trace s)"
    and mem: "img \<in> set imgs"
  shows "\<exists>pre post. trace (snd (molmo_branch w images query s)) = pre @ CloseImage img # post
           \<and> Pixels b imgs \<in> set pre"
proof -
  obtain r0 s0 where l: "load3 w ''molmo'' s = (r0, s0)" by (cases "load3 w ''molmo'' s")
  have "frame not_pixels (load3 w ''molmo'')" by (rule frame_load3) (simp add: not_pixels_def)
  from frameD [OF this, of s] l obtain T0 where
    T0: "s0 = s\<lparr>trace := trace s @ T0\<rparr>" "list_all not_pixels T0" by auto
  show ?thesis
  proof (cases r0)
    case (Inl e)
    with l have "snd (molmo_branch w images query s) = s0"
      by (simp add: molmo_branch_def bind_run_def)
    with handed fresh T0 not_pixels_mem [OF T0(2)] show ?thesis by auto
  next
    case (Inr t)
    obtain m p d where t: "t = (m, p, d)" by (cases t)
    define s1 where "s1 = s0\<lparr>heap := (heap s0)(m := half (heap s0 m))\<rparr>"
    obtain r1 s2 where loop: "for_acc (take 1 images) [] (molmo_load_image w) s1 = (r1, s2)"
      by (cases "for_acc (take 1 images) [] (molmo_load_image w) s1")
    have "frame not_pixels (for_acc (take 1 images) [] (molmo_load_image w))"
      by (intro frame_for_acc frame_molmo_load) (simp_all add: not_pixels_def)
    from frameD [OF this, of s1] loop obtain T1 where
      T1: "s2 = s1\<lparr>trace := trace s1 @ T1\<rparr>" "list_all not_pixels T1" by auto
    have tr2: "trace s2 = trace s @ T0 @ T1" by (simp add: T1 s1_def T0)
    have quiet: "Pixels b imgs \<notin> set (trace s2)"
      using fresh not_pixels_mem [OF T0(2)] not_pixels_mem [OF T1(2)] by (simp add: tr2)
    show ?thesis
    proof (cases r1)
      case (Inl e)
      have "snd (molmo_branch w images query s) = s2"
        using l Inr t loop Inl
        by (simp add: molmo_branch_def bind_run_def deref_def assign_def s1_def)
      with handed quiet show ?thesis by simp
    next
      case pil: (Inr pil)
      show ?thesis
      proof (cases "pil = []")
        case True
        have "snd (molmo_branch w images query s) = s2"
          using l Inr t loop pil True
          by (simp add: molmo_branch_def bind_run_def deref_def assign_def ret_def s1_def)
        with handed quiet show ?thesis by simp
      next
        case False
        let ?G = "try_except (molmo_generate w m p d pil query)
            (\<lambda>e. bind_run (logger Error (''Error in Molmo processing: '' @ str e))
               (\<lambda>u. ret (PyStr (processing_error e))))"
        let ?P = "\<lambda>e. case e of Pixels b imgs \<Rightarrow> imgs = pil | _ \<Rightarrow> True"
        have "frame ?P ?G"
          by (intro frame_intros frame_molmo_generate) simp_all
        from frameD [OF this, of s2] obtain T2 where
          T2: "snd (?G s2) = s2\<lparr>trace := trace s2 @ T2\<rparr>" "list_all ?P T2" by blast
        obtain r3 where G: "?G s2 = (r3, s2\<lparr>trace := trace s2 @ T2\<rparr>)"
          using T2(1) by (cases "?G s2") auto
        have fin: "trace (snd (molmo_branch w images query s))
            = trace s2 @ T2 @ map CloseImage pil"
          using l Inr t loop pil False G close_all [of pil "s2\<lparr>trace := trace s2 @ T2\<rparr>"]
          by (simp add: molmo_branch_def bind_run_def deref_def assign_def try_finally_def
              s1_def [symmetric])
        from handed quiet have "Pixels b imgs \<in> set T2" by (auto simp: fin)
        with T2(2) have "imgs = pil" by (auto simp: list_all_iff)
        with mem obtain ys zs where "pil = ys @ img # zs" by (auto dest: split_list)
        then have "trace (snd (molmo_branch w images query s))
            = (trace s2 @ T2 @ map CloseImage ys) @ CloseImage img # map CloseImage zs"
          by (simp add: fin)
        moreover have "Pixels b imgs \<in> set (trace s2 @ T2 @ map CloseImage ys)"
          using \<open>Pixels b imgs \<in> set T2\<close> by simp
        ultimately show ?thesis by blast
      qed
    qed
  qed
qed

lemma molmo_closes_kept_images:
  assumes "Pixels b imgs \<in> set (events (generate_response w images query sid rh rw ''molmo'') h)"
    and "img \<in> set imgs"
  shows "\<exists>pre post. events (generate_response w images query sid rh rw ''molmo'') h
            = pre @ CloseImage img # post \<and> Pixels b imgs \<in> set pre"
proof -
  let ?s1 = "(start h)\<lparr>trace := trace (start h) @ [greeting ''molmo'']\<rparr>"
  from generate_response_trace [of w images query sid rh rw "''molmo''" "start h"]
  obtain extra where
    ev: "events (generate_response w images query sid rh rw ''molmo'') h
       = trace (snd (molmo_branch w images query ?s1)) @ extra"
    and ex: "list_all not_pixels extra"
    by (auto simp: events_def dispatch_def)
  from assms(1) ev not_pixels_mem [OF ex]
  have "Pixels b imgs \<in> set (trace (snd (molmo_branch w images query ?s1)))" by auto
  moreover have "Pixels b imgs \<notin> set (trace ?s1)" by (simp add: start_def greeting_def)
  ultimately obtain pre post where
    "trace (snd (molmo_branch w images query ?s1)) = pre @ CloseImage img # post"
    "Pixels b imgs \<in> set pre"
    using molmo_branch_closes_kept [OF _ _ assms(2)] by blast
  with ev have "events (generate_response w images query sid rh rw ''molmo'') h
      = pre @ CloseImage img # (post @ extra)" by simp
  with \<open>Pixels b imgs \<in> set pre\<close> show ?thesis by blast
qed

text \<open>
  The image that is closed is the one \<open>convert\<close> returned. In the sample world, where
  \<open>convert\<close> returns another image than the one it is given, the call opens image 7 and
  closes image 8.
\<close>

lemma molmo_closes_converted_image:
  "events (generate_response demo_world [''a.png''] ''describe'' () 280 280 ''molmo'') demo_heap =
     [greeting ''molmo'', LoadModel ''molmo'', Exists ''static/a.png'',
      OpenImage ''static/a.png'', Opened 7, Pixels ''molmo'' [8], Infer ''molmo'',
      CloseImage 8]"
  by (simp add: call_defs run_defs molmo_branch_def molmo_load_image_def molmo_generate_def
      demo_world_def static_join_def size1_def greeting_def)


subsection \<open>C9: llama-vision with no image\<close>

text \<open>
  When the loader returns its three objects, what the outer handler logs is the
  \<open>IndexError\<close> of \<open>image_paths[0]\<close>, and no file has been touched.
\<close>

lemma llama_empty_list_events:
  assumes "load_model w ''llama-vision'' = Inr [m, p, d]"
  shows "events (generate_response w [] query sid rh rw ''llama-vision'') h =
     [greeting ''llama-vision'', LoadModel ''llama-vision'',
      Log Error ''Error generating response: list index out of range'']"
  using assms by (simp add: call_defs run_defs llama_branch_def greeting_def)

text \<open>
  C9. With an empty list the llama-vision branch raises inside the outer \<open>try\<close> (the
  loader raises, or indexing the empty list of paths does), so the call returns
  \<open>An error occurred while generating the response.\<close> and not the sentence about images.
\<close>

theorem llama_empty_list:
  "returned (generate_response w [] query sid rh rw ''llama-vision'') h
     = Inr (PyStr ''An error occurred while generating the response.'')
   \<and> returned (generate_response w [] query sid rh rw ''llama-vision'') h
     \<noteq> Inr (PyStr ''No images could be loaded for analysis.'')"
  by (simp add: call_defs run_defs llama_branch_def generic_error_def
      split: sum.split list.split)

subsection \<open>C10: qwen with no image\<close>

text \<open>
  C10. With an empty list, and a backend each of whose calls returns, the qwen branch
  hands over a content that is the text part alone, enters the inference call and returns
  the first decoded output.
\<close>

theorem qwen_empty_list_text_only:
  assumes "load_model w ''qwen'' = Inr [m, p, d]"
    and "apply_chat_template w (h p) [Text query] = Inr text"
    and "process_vision_info w [Text query] = Inr (image_inputs, video_inputs)"
    and "qwen_processor w (h p) [text] image_inputs video_inputs = Inr inputs0"
    and "to_device w inputs0 (h d) = Inr inputs"
    and "model_generate w (h m) inputs 128 = Inr generated_ids"
    and "batch_decode w (h p)
           (map (\<lambda>(in_ids, out_ids). drop (length in_ids) out_ids)
              (zip (input_ids inputs) generated_ids)) = Inr (out # others)"
  shows "returned (generate_response w [] query sid rh rw ''qwen'') h = Inr (PyStr out)
       \<and> events (generate_response w [] query sid rh rw ''qwen'') h =
           [Log Info (''Generating response using model '' @ [CHR 0x27] @ ''qwen'' @ [CHR 0x27] @ ''.''),
            LoadModel ''qwen'',
            Prompt ''qwen'' [Text query],
            Infer ''qwen'',
            Log Info ''Response generated using Qwen model.'']"
  using assms
  by (simp add: call_defs run_defs qwen_branch_def qwen_content_def)

text \<open>The sample world answers \<open>a cat\<close>.\<close>

theorem qwen_empty_list_text_only_witness:
  "returned (generate_response demo_world [] ''describe'' () 280 280 ''qwen'') demo_heap
      = Inr (PyStr ''a cat'')
   \<and> Prompt ''qwen'' [Text ''describe''] \<in> set
       (events (generate_response demo_world [] ''describe'' () 280 280 ''qwen'') demo_heap)
   \<and> Infer ''qwen'' \<in> set
       (events (generate_response demo_world [] ''describe'' () 280 280 ''qwen'') demo_heap)"
proof -
  have "load_model demo_world ''qwen'' = Inr [0, 1, 2]"
    and "apply_chat_template demo_world (demo_heap 1) [Text ''describe''] = Inr ''prompt''"
    and "process_vision_info demo_world [Text ''describe''] = Inr (0, 0)"
    and "qwen_processor demo_world (demo_heap 1) [''prompt''] 0 0 = Inr \<lparr>input_ids = [[1, 2]], payload = 0\<rparr>"
    and "to_device demo_world \<lparr>input_ids = [[1, 2]], payload = 0\<rparr> (demo_heap 2) = Inr \<lparr>input_ids = [[1, 2]], payload = 0\<rparr>"
    and "model_generate demo_world (demo_heap 0) \<lparr>input_ids = [[1, 2]], payload = 0\<rparr> 128 = Inr [[1, 2, 3]]"
    and "batch_decode demo_world (demo_heap 1)
           (map (\<lambda>(in_ids, out_ids). drop (length in_ids) out_ids)
              (zip (input_ids \<lparr>input_ids = [[1, 2]], payload = 0\<rparr>) [[1, 2, 3]])) = Inr (''a cat'' # [])"
    by (simp_all add: demo_world_def)
  from qwen_empty_list_text_only [OF this, of "()" 280 280]
  show ?thesis by simp
qed

end
